theory Spec2Isabelle
  imports Complex_Main
begin

section \<open>Python values, exceptions and the world\<close>

text \<open>
  The repository holds three variants of one batch pipeline: \<^verbatim>\<open>ImprovedVersionFinal.py\<close>
  (retry decorators, sequential batches, one report per sub-folder),
  \<^verbatim>\<open>process-audio-transcribe.py\<close> (no retry, one gather over all files) and
  \<^verbatim>\<open>recentAsPerHuzaifa-upgraded.py\<close> (shared output list, a retry pass over failed files).
  Each source function becomes a state-passing function over a \<open>world\<close>; every
  \<^verbatim>\<open>raise\<close> is the \<open>Inl\<close> branch of a sum. The exceptions modelled are the instances of
  Python's \<^verbatim>\<open>Exception\<close>, which is what \<^verbatim>\<open>except Exception\<close> catches.
\<close>

datatype exn_class =
  OSError | RemoteError | ValueError | KeyError | TypeError | JSONDecodeError
  | AttributeError | UnboundLocalError | RuntimeError | ZeroDivisionError

text \<open>An exception: its class and \<^verbatim>\<open>str(e)\<close>.\<close>

datatype exn = Exn exn_class string

fun str_exn :: "exn \<Rightarrow> string" where
  "str_exn (Exn c m) = m"

fun class_of :: "exn \<Rightarrow> exn_class" where
  "class_of (Exn c m) = c"

text \<open>Python values as they reach a result dictionary; a dict keeps insertion order.\<close>

datatype pyval =
  PNone | PBool bool | PInt int | PFloat real | PStr string
  | PList "pyval list" | PDict "(string \<times> pyval) list"

text \<open>A remote request: audio bytes with a mime type, or the QA prompt, which is the
  constant template with the transcript substituted (ImprovedVersionFinal.py); the
  transcription instruction with an uploaded file, named by its handle
  (process-audio-transcribe.py); the evaluation prompt with an uploaded file
  (recentAsPerHuzaifa-upgraded.py).\<close>

datatype request =
  Transcribe string string | Analyze string
  | Transcribe_uploaded string | Evaluate_uploaded string

text \<open>One constructor per log line of the sources, with the interpolated values.\<close>

datatype msg =
  Starting_transcription string
  | Successfully_transcribed string nat
  | Error_during_transcription string string
  | Starting_transcript_analysis
  | Successfully_analyzed_transcript
  | Error_during_transcript_analysis string
  | Starting_processing_pipeline string
  | Successfully_processed string real
  | Error_processing string real
  | No_audio_files_found string
  | Found_audio_files nat string
  | Processing_batch nat nat
  | Results_saved string string
  | Processed_files nat string real real
  | Total_processing_completed real
  | Processed_across_subdirectories nat
  | Cleaned_up_uploaded_file string
  | Failed_to_clean_up string string
  | Processing string
  | Processing_file string
  | JSON_decode_error string string
  | Deleted_file string
  | Error_processing_path string string
  | Time_taken string real
  | Excluded_file string
  | Total_files nat
  | No_audio_files_in_directory
  | Starting_batch nat nat
  | Starting_batch_with_files nat "string list"
  | Retrying_failed_files
  | Retry_failed string string
  | Output_saved string
  | Total_processing_time real

datatype level = DEBUG | INFO | WARNING | ERROR

text \<open>The observable effects, in the order they happen.\<close>

datatype event =
  Log level msg
  | Print msg
  | Sleep nat
  | Write string pyval

record world =
  ticks :: nat
  calls :: nat
  trace :: "event list"

text \<open>The handle \<^verbatim>\<open>genai.upload_file\<close> returns.\<close>

record uploaded =
  name :: string
  display_name :: string

text \<open>
  The external collaborators: the file system (\<^verbatim>\<open>os.walk\<close> yields root, directories and
  files), the remote service (its answer to the \<open>n\<close>-th remote operation of the run: for
  \<^verbatim>\<open>generate_content\<close> the \<^verbatim>\<open>response.text\<close>, \<open>None\<close> when the response or its text is
  missing, or an exception; for \<^verbatim>\<open>upload_file\<close> the handle, \<open>None\<close> for a falsy one, or an
  exception), \<^verbatim>\<open>json.loads\<close>, the clock (its \<open>n\<close>-th reading) and \<^verbatim>\<open>round(x, 2)\<close> on floats.
  Writing a file is taken to succeed.
\<close>

record env =
  read_bytes :: "string \<Rightarrow> exn + string"
  generate_content :: "request \<Rightarrow> nat \<Rightarrow> exn + string option"
  json_loads :: "string \<Rightarrow> exn + pyval"
  time_time :: "nat \<Rightarrow> real"
  round2 :: "real \<Rightarrow> real"
  os_walk :: "string \<Rightarrow> (string \<times> string list \<times> string list) list"
  os_listdir :: "string \<Rightarrow> string list"
  upload_file :: "string \<Rightarrow> nat \<Rightarrow> exn + uploaded option"
  delete_file :: "string \<Rightarrow> nat \<Rightarrow> exn + unit"

type_synonym 'a io = "world \<Rightarrow> (exn + 'a) \<times> world"

definition ret :: "'a \<Rightarrow> 'a io" where
  "ret v w = (Inr v, w)"

definition raise :: "exn \<Rightarrow> 'a io" where
  "raise e w = (Inl e, w)"

definition bnd :: "'a io \<Rightarrow> ('a \<Rightarrow> 'b io) \<Rightarrow> 'b io" where
  "bnd m k w = (case m w of (Inl e, w') \<Rightarrow> (Inl e, w') | (Inr v, w') \<Rightarrow> k v w')"

definition lift :: "exn + 'a \<Rightarrow> 'a io" where
  "lift r w = (r, w)"

text \<open>\<^verbatim>\<open>try: body except Exception as e: handler\<close>.\<close>

definition try_except :: "'a io \<Rightarrow> (exn \<Rightarrow> 'a io) \<Rightarrow> 'a io" where
  "try_except body handler w =
     (case body w of (Inl e, w') \<Rightarrow> handler e w' | (Inr v, w') \<Rightarrow> (Inr v, w'))"

definition emit :: "event \<Rightarrow> world \<Rightarrow> world" where
  "emit ev w = w\<lparr>trace := trace w @ [ev]\<rparr>"

definition logging :: "level \<Rightarrow> msg \<Rightarrow> unit io" where
  "logging l m w = (Inr (), emit (Log l m) w)"

definition sleep :: "nat \<Rightarrow> unit io" where
  "sleep n w = (Inr (), emit (Sleep n) w)"

definition now :: "env \<Rightarrow> real io" where
  "now env w = (Inr (time_time env (ticks w)), w\<lparr>ticks := Suc (ticks w)\<rparr>)"

definition remote :: "env \<Rightarrow> request \<Rightarrow> string option io" where
  "remote env req w = (generate_content env req (calls w), w\<lparr>calls := Suc (calls w)\<rparr>)"

definition upload :: "env \<Rightarrow> string \<Rightarrow> uploaded option io" where
  "upload env path w = (upload_file env path (calls w), w\<lparr>calls := Suc (calls w)\<rparr>)"

definition delete :: "env \<Rightarrow> string \<Rightarrow> unit io" where
  "delete env nm w = (delete_file env nm (calls w), w\<lparr>calls := Suc (calls w)\<rparr>)"

definition print :: "msg \<Rightarrow> unit io" where
  "print m w = (Inr (), emit (Print m) w)"

text \<open>\<^verbatim>\<open>json.dump\<close> of a document into a freshly opened file.\<close>

definition write_json :: "string \<Rightarrow> pyval \<Rightarrow> unit io" where
  "write_json path doc w = (Inr (), emit (Write path doc) w)"


section \<open>String helpers of the Python library\<close>

text \<open>\<^verbatim>\<open>str.lower\<close> on ASCII text.\<close>

definition lower_char :: "char \<Rightarrow> char" where
  "lower_char c =
     (case map_of (zip ''ABCDEFGHIJKLMNOPQRSTUVWXYZ'' ''abcdefghijklmnopqrstuvwxyz'') c of
        Some l \<Rightarrow> l
      | None \<Rightarrow> c)"

definition lower :: "string \<Rightarrow> string" where
  "lower s = map lower_char s"

definition endswith :: "string \<Rightarrow> string \<Rightarrow> bool" where
  "endswith s suf = (length suf \<le> length s \<and> drop (length s - length suf) s = suf)"

definition is_audio :: "string \<Rightarrow> bool" where
  "is_audio f = (endswith (lower f) ''.mp3'' \<or> endswith (lower f) ''.wav'')"

definition is_space :: "char \<Rightarrow> bool" where
  "is_space c = (let n = (of_char c :: nat) in (9 \<le> n \<and> n \<le> 13) \<or> (28 \<le> n \<and> n \<le> 32))"

definition strip :: "string \<Rightarrow> string" where
  "strip s = rev (dropWhile is_space (rev (dropWhile is_space s)))"

text \<open>\<^verbatim>\<open>len(s.split())\<close>: the number of maximal runs of non-blank characters.\<close>

fun split_len :: "bool \<Rightarrow> string \<Rightarrow> nat" where
  "split_len in_word [] = 0"
| "split_len in_word (c # cs) =
     (if is_space c then split_len False cs
      else (if in_word then 0 else 1) + split_len True cs)"

text \<open>\<^verbatim>\<open>os.path.basename\<close> and \<^verbatim>\<open>os.path.join\<close> of two parts, as in \<^verbatim>\<open>posixpath\<close>.\<close>

definition basename :: "string \<Rightarrow> string" where
  "basename p = rev (takeWhile (\<lambda>c. c \<noteq> CHR ''/'') (rev p))"

definition path_join :: "string \<Rightarrow> string \<Rightarrow> string" where
  "path_join a b =
     (if b \<noteq> [] \<and> hd b = CHR ''/'' then b
      else if a = [] \<or> last a = CHR ''/'' then a @ b
      else a @ ''/'' @ b)"

text \<open>\<^verbatim>\<open>d[k]\<close> with a string key: KeyError on a dict without the key (its text is the
  repr of the key), TypeError on every value that is not a dict.\<close>

fun getitem :: "pyval \<Rightarrow> string \<Rightarrow> exn + pyval" where
  "getitem (PDict kvs) k =
     (case map_of kvs k of
        Some v \<Rightarrow> Inr v
      | None \<Rightarrow> Inl (Exn KeyError ([CHR 0x27] @ k @ [CHR 0x27])))"
| "getitem (PList xs) k = Inl (Exn TypeError ''list indices must be integers or slices, not str'')"
| "getitem (PStr s) k = Inl (Exn TypeError ''string indices must be integers, not str'')"
| "getitem v k = Inl (Exn TypeError ''object is not subscriptable'')"

text \<open>\<^verbatim>\<open>d[k] = v\<close>: a dict keeps the position of a key it has and appends a new one.\<close>

fun assign :: "(string \<times> pyval) list \<Rightarrow> string \<Rightarrow> pyval \<Rightarrow> (string \<times> pyval) list" where
  "assign [] k v = [(k, v)]"
| "assign ((k', v') # kvs) k v = (if k' = k then (k, v) # kvs else (k', v') # assign kvs k v)"

fun setitem :: "pyval \<Rightarrow> string \<Rightarrow> pyval \<Rightarrow> exn + pyval" where
  "setitem (PDict kvs) k v = Inr (PDict (assign kvs k v))"
| "setitem (PList xs) k v =
     Inl (Exn TypeError ''list indices must be integers or slices, not str'')"
| "setitem d k v = Inl (Exn TypeError ''object does not support item assignment'')"

text \<open>The truth value of a Python value.\<close>

fun truthy :: "pyval \<Rightarrow> bool" where
  "truthy PNone = False"
| "truthy (PBool b) = b"
| "truthy (PInt i) = (i \<noteq> 0)"
| "truthy (PFloat x) = (x \<noteq> 0)"
| "truthy (PStr s) = (s \<noteq> [])"
| "truthy (PList xs) = (xs \<noteq> [])"
| "truthy (PDict kvs) = (kvs \<noteq> [])"

section \<open>The retry decorator\<close>

text \<open>
  Modelled from the spec: the decorator \<^verbatim>\<open>@retry(stop=stop_after_attempt(3),
  wait=wait_exponential(multiplier=1, min=4, max=10), reraise=True)\<close> comes from the
  tenacity library, which is not under src/. The spec (4.1 RetryPolicy): the operation is
  attempted up to a fixed maximum; on failure the wrapper waits
  \<open>min(max_wait, base * 2^(attempt-1))\<close>, clamped to \<open>[min_wait, max_wait]\<close>, before
  retrying; after the last attempt the final failure is re-raised unchanged. The numbers
  are the ones the source passes to the decorator.
\<close>

definition wait_exponential :: "nat \<Rightarrow> nat \<Rightarrow> nat \<Rightarrow> nat \<Rightarrow> nat" where
  "wait_exponential multiplier min_wait max_wait attempt =
     max min_wait (min max_wait (min max_wait (multiplier * 2 ^ (attempt - 1))))"

function retry :: "nat \<Rightarrow> (nat \<Rightarrow> nat) \<Rightarrow> nat \<Rightarrow> 'a io \<Rightarrow> 'a io" where
  "retry max_attempts wait attempt f w =
     (case f w of
        (Inr v, w') \<Rightarrow> (Inr v, w')
      | (Inl e, w') \<Rightarrow>
          if max_attempts \<le> attempt then (Inl e, w')
          else retry max_attempts wait (Suc attempt) f (snd (sleep (wait attempt) w')))"
  by pat_completeness auto
termination
  by (relation "measure (\<lambda>(m, wt, a, f, w). m - a)") auto

definition retrying :: "'a io \<Rightarrow> 'a io" where
  "retrying f = retry 3 (wait_exponential 1 4 10) 1 f"

section \<open>ImprovedVersionFinal.py\<close>

text \<open>The body of \<^verbatim>\<open>transcribe_audio\<close>: one attempt.\<close>

definition transcribe_audio_body :: "env \<Rightarrow> string \<Rightarrow> string io" where
  "transcribe_audio_body env file_path =
     bnd (logging INFO (Starting_transcription file_path)) (\<lambda>_.
     try_except
       (bnd (lift (read_bytes env file_path)) (\<lambda>audio_data.
        bnd (remote env (Transcribe audio_data
               (if endswith (lower file_path) ''.wav'' then ''audio/wav'' else ''audio/mpeg'')))
          (\<lambda>text.
        let transcript = strip (case text of None \<Rightarrow> [] | Some t \<Rightarrow> t);
            word_count = split_len False transcript in
        bnd (logging INFO (Successfully_transcribed file_path word_count)) (\<lambda>_.
        ret transcript))))
       (\<lambda>e. bnd (logging ERROR (Error_during_transcription file_path (str_exn e))) (\<lambda>_.
            raise e)))"

definition transcribe_audio :: "env \<Rightarrow> string \<Rightarrow> string io" where
  "transcribe_audio env file_path = retrying (transcribe_audio_body env file_path)"

text \<open>The body of \<^verbatim>\<open>analyze_transcript\<close>: one attempt. \<^verbatim>\<open>not response.text\<close> holds for a
  missing and for an empty text.\<close>

definition analyze_transcript_body :: "env \<Rightarrow> string \<Rightarrow> pyval io" where
  "analyze_transcript_body env transcript =
     bnd (logging INFO Starting_transcript_analysis) (\<lambda>_.
     try_except
       (bnd (remote env (Analyze transcript)) (\<lambda>text.
        if text = None \<or> text = Some [] then
          raise (Exn ValueError ''No response text from analysis model'')
        else
          bnd (lift (json_loads env (the text))) (\<lambda>result.
          bnd (logging INFO Successfully_analyzed_transcript) (\<lambda>_.
          ret result))))
       (\<lambda>e. bnd (logging ERROR (Error_during_transcript_analysis (str_exn e))) (\<lambda>_.
            raise e)))"

definition analyze_transcript :: "env \<Rightarrow> string \<Rightarrow> pyval io" where
  "analyze_transcript env transcript = retrying (analyze_transcript_body env transcript)"

definition process_file :: "env \<Rightarrow> string \<Rightarrow> pyval io" where
  "process_file env file_path =
     bnd (now env) (\<lambda>start.
     bnd (logging INFO (Starting_processing_pipeline file_path)) (\<lambda>_.
     try_except
       (bnd (transcribe_audio env file_path) (\<lambda>transcript.
        bnd (sleep 2) (\<lambda>_.
        bnd (analyze_transcript env transcript) (\<lambda>qa_json.
        bnd (sleep 2) (\<lambda>_.
        bnd (now env) (\<lambda>t.
        let total_time = t - start in
        bnd (lift (getitem qa_json ''call_summary'')) (\<lambda>call_summary.
        bnd (lift (getitem qa_json ''qa_evaluation'')) (\<lambda>qa_evaluation.
        ret (PDict [
          (''FileName'', PStr (basename file_path)),
          (''FilePath'', PStr file_path),
          (''Success'', PBool True),
          (''Transcription'', PStr transcript),
          (''CallSummary'', call_summary),
          (''QA_Evaluation'', qa_evaluation)])))))))))
       (\<lambda>e.
        bnd (now env) (\<lambda>t.
        let elapsed = t - start in
        bnd (logging ERROR (Error_processing file_path elapsed)) (\<lambda>_.
        ret (PDict [
          (''FileName'', PStr (basename file_path)),
          (''FilePath'', PStr file_path),
          (''Success'', PBool False),
          (''Error'', PStr (str_exn e)),
          (''Timing'', PDict [(''TotalTime'', PFloat (round2 env elapsed))])]))))))"

text \<open>\<^verbatim>\<open>process_batch\<close>: the files of one batch, one after the other.\<close>

fun process_batch_loop :: "env \<Rightarrow> string list \<Rightarrow> pyval list \<Rightarrow> pyval list io" where
  "process_batch_loop env [] results w = (Inr results, w)"
| "process_batch_loop env (file # files) results w =
     (case process_file env file w of
        (Inl e, w1) \<Rightarrow> (Inl e, w1)
      | (Inr result, w1) \<Rightarrow>
          process_batch_loop env files (results @ [result]) (snd (sleep 2 w1)))"

definition process_batch :: "env \<Rightarrow> string list \<Rightarrow> pyval list io" where
  "process_batch env files = process_batch_loop env files []"

text \<open>\<^verbatim>\<open>config["batch_size"]\<close>.\<close>

definition batch_size :: nat where
  "batch_size = 10"

text \<open>The loop \<^verbatim>\<open>for i in range(0, len(audio_files), batch_size)\<close> of \<^verbatim>\<open>main\<close>, from index
  \<open>i\<close> on; \<^verbatim>\<open>range\<close> refuses a step of 0 before the first round.\<close>

function batches_from ::
  "env \<Rightarrow> nat \<Rightarrow> string list \<Rightarrow> nat \<Rightarrow> pyval list \<Rightarrow> pyval list io" where
  "batches_from env bs audio_files i all_results w =
     (if 0 < bs \<and> i < length audio_files then
        (case bnd (logging INFO
                (Processing_batch (i div bs + 1) ((length audio_files + bs - 1) div bs)))
               (\<lambda>_. process_batch env (take bs (drop i audio_files))) w of
           (Inl e, w1) \<Rightarrow> (Inl e, w1)
         | (Inr batch_results, w1) \<Rightarrow>
             batches_from env bs audio_files (i + bs) (all_results @ batch_results)
               (snd (sleep 10 w1)))
      else (Inr all_results, w))"
  by pat_completeness auto
termination
  by (relation "measure (\<lambda>(env, bs, fs, i, rs, w). length fs - i)") auto

definition process_in_batches :: "env \<Rightarrow> nat \<Rightarrow> string list \<Rightarrow> pyval list io" where
  "process_in_batches env bs audio_files =
     (if bs = 0 then raise (Exn ValueError ''range() arg 3 must not be zero'')
      else batches_from env bs audio_files 0 [])"

text \<open>\<^verbatim>\<open>sum(1 for r in all_results if r["Success"])\<close>, and the same with \<^verbatim>\<open>not\<close>.\<close>

fun count_results :: "(pyval \<Rightarrow> bool) \<Rightarrow> pyval list \<Rightarrow> exn + nat" where
  "count_results P [] = Inr 0"
| "count_results P (r # rs) =
     (case getitem r ''Success'' of
        Inl e \<Rightarrow> Inl e
      | Inr v \<Rightarrow>
          (case count_results P rs of
             Inl e \<Rightarrow> Inl e
           | Inr n \<Rightarrow> Inr ((if P v then 1 else 0) + n)))"

text \<open>The audio files \<^verbatim>\<open>main\<close> gathers for one sub-directory.\<close>

definition list_audio_files :: "env \<Rightarrow> string \<Rightarrow> string list" where
  "list_audio_files env subdir =
     map (path_join subdir) (filter is_audio (os_listdir env subdir))"

text \<open>The body of \<^verbatim>\<open>for subdir in subdirs\<close> in \<^verbatim>\<open>main\<close>; \<^verbatim>\<open>continue\<close> ends it early.\<close>

definition process_subdir :: "env \<Rightarrow> real \<Rightarrow> string \<Rightarrow> unit io" where
  "process_subdir env total_start subdir =
     (let audio_files = list_audio_files env subdir in
      if audio_files = [] then ret ()
      else
        let total_files = length audio_files in
        bnd (logging INFO (Found_audio_files (length audio_files) subdir)) (\<lambda>_.
        bnd (process_in_batches env batch_size audio_files) (\<lambda>all_results.
        if all_results = [] then ret ()
        else
          bnd (now env) (\<lambda>t.
          let total_time = t - total_start in
          bnd (lift (count_results truthy all_results)) (\<lambda>successful.
          bnd (lift (count_results (\<lambda>v. \<not> truthy v) all_results)) (\<lambda>failed.
          let summary = PDict [
                (''TotalFiles'', PInt (int total_files)),
                (''SuccessfulFiles'', PInt (int successful)),
                (''FailedFiles'', PInt (int failed)),
                (''Results'', PList all_results)];
              subdir_name = basename subdir;
              output_path = ''output/'' @ subdir_name @ ''.json'' in
          bnd (write_json output_path summary) (\<lambda>_.
          bnd (logging INFO (Results_saved subdir_name output_path)) (\<lambda>_.
          if total_files \<noteq> 0 then
            logging INFO (Processed_files total_files subdir_name total_time
              (total_time / real total_files))
          else ret ()))))))))"

fun for_subdirs :: "env \<Rightarrow> real \<Rightarrow> string list \<Rightarrow> unit io" where
  "for_subdirs env total_start [] w = (Inr (), w)"
| "for_subdirs env total_start (subdir # subdirs) w =
     (case process_subdir env total_start subdir w of
        (Inl e, w1) \<Rightarrow> (Inl e, w1)
      | (Inr u, w1) \<Rightarrow> for_subdirs env total_start subdirs w1)"

text \<open>The sub-directories \<^verbatim>\<open>main\<close> collects from \<^verbatim>\<open>os.walk\<close>.\<close>

definition audio_subdirs :: "env \<Rightarrow> string \<Rightarrow> string list" where
  "audio_subdirs env directory =
     map fst (filter (\<lambda>(root, dirs, files). list_ex is_audio files) (os_walk env directory))"

definition main :: "env \<Rightarrow> string \<Rightarrow> unit io" where
  "main env directory =
     bnd (now env) (\<lambda>total_start.
     let subdirs = audio_subdirs env directory in
     if subdirs = [] then logging ERROR (No_audio_files_found directory)
     else
       bnd (for_subdirs env total_start subdirs) (\<lambda>_.
       bnd (now env) (\<lambda>t.
       let total_time = t - total_start in
       bnd (logging INFO (Total_processing_completed total_time)) (\<lambda>_.
       logging INFO (Processed_across_subdirectories (length subdirs))))))"

section \<open>process-audio-transcribe.py\<close>




section \<open>recentAsPerHuzaifa-upgraded.py\<close>

text \<open>
  The functions of this file share two Python lists, \<^verbatim>\<open>output_json\<close> and a list of failed
  paths, which they mutate in place: an exception raised after an \<^verbatim>\<open>append\<close> leaves the
  appended item there. The lists are threaded next to the world.
\<close>

record lists =
  output_json :: "pyval list"
  failed_files :: "string list"

type_synonym 'a lio = "lists \<Rightarrow> world \<Rightarrow> (exn + 'a) \<times> lists \<times> world"

definition lret :: "'a \<Rightarrow> 'a lio" where
  "lret v ls w = (Inr v, ls, w)"

definition lraise :: "exn \<Rightarrow> 'a lio" where
  "lraise e ls w = (Inl e, ls, w)"

definition lbnd :: "'a lio \<Rightarrow> ('a \<Rightarrow> 'b lio) \<Rightarrow> 'b lio" where
  "lbnd m k ls w =
     (case m ls w of (Inl e, ls', w') \<Rightarrow> (Inl e, ls', w') | (Inr v, ls', w') \<Rightarrow> k v ls' w')"

definition io :: "'a io \<Rightarrow> 'a lio" where
  "io m ls w = (case m w of (r, w') \<Rightarrow> (r, ls, w'))"

definition ltry_except :: "'a lio \<Rightarrow> (exn \<Rightarrow> 'a lio) \<Rightarrow> 'a lio" where
  "ltry_except body handler ls w =
     (case body ls w of
        (Inl e, ls', w') \<Rightarrow> handler e ls' w'
      | (Inr v, ls', w') \<Rightarrow> (Inr v, ls', w'))"

definition append_output :: "pyval \<Rightarrow> unit lio" where
  "append_output item ls w = (Inr (), ls\<lparr>output_json := output_json ls @ [item]\<rparr>, w)"

definition append_failed :: "string \<Rightarrow> unit lio" where
  "append_failed path ls w = (Inr (), ls\<lparr>failed_files := failed_files ls @ [path]\<rparr>, w)"

text \<open>The last two lines of \<^verbatim>\<open>process_single_audio\<close>, after the \<^verbatim>\<open>try\<close> statement. The local
  \<^verbatim>\<open>audio_file\<close> is unbound (\<open>None\<close>) when \<^verbatim>\<open>upload_file\<close> raised, and bound to a falsy value
  (\<open>Some None\<close>) when it returned one.\<close>

definition time_taken :: "env \<Rightarrow> real \<Rightarrow> uploaded option option \<Rightarrow> unit lio" where
  "time_taken env start_time audio_file =
     lbnd (io (now env)) (\<lambda>end_time.
     case audio_file of
       None \<Rightarrow>
         lraise (Exn UnboundLocalError
           ''cannot access local variable audio_file where it is not associated with a value'')
     | Some None \<Rightarrow>
         lraise (Exn AttributeError ''NoneType object has no attribute display_name'')
     | Some (Some a) \<Rightarrow> io (print (Time_taken (display_name a) (end_time - start_time))))"

text \<open>The \<^verbatim>\<open>try\<close> block from the second statement on; the value tells whether it left the
  function by \<^verbatim>\<open>return\<close>.\<close>

definition single_audio_body :: "env \<Rightarrow> string \<Rightarrow> uploaded option \<Rightarrow> bool lio" where
  "single_audio_body env audio_path audio_file =
     (case audio_file of
        None \<Rightarrow> lraise (Exn ValueError (''Failed to upload file: '' @ audio_path))
      | Some a \<Rightarrow>
          lbnd (io (print (Processing (display_name a)))) (\<lambda>_.
          lbnd (io (logging INFO (Processing_file (display_name a)))) (\<lambda>_.
          lbnd (io (remote env (Evaluate_uploaded (name a)))) (\<lambda>text.
          if text = None \<or> text = Some [] then
            lraise (Exn ValueError (''No valid response for '' @ display_name a))
          else
            (case json_loads env (the text) of
               Inl e \<Rightarrow>
                 if class_of e = JSONDecodeError then
                   lbnd (io (logging ERROR (JSON_decode_error (display_name a) (str_exn e)))) (\<lambda>_.
                   lbnd (append_failed audio_path) (\<lambda>_.
                   lret True))
                 else lraise e
             | Inr response_data \<Rightarrow>
                 lbnd (io (lift (setitem response_data ''FileName'' (PStr (display_name a)))))
                   (\<lambda>d1.
                 lbnd (io (lift (setitem d1 ''FilePath'' (PStr audio_path)))) (\<lambda>d2.
                 lbnd (io (lift (setitem d2 ''Success'' (PBool True)))) (\<lambda>d3.
                 lbnd (io (lift (setitem d3 ''Message'' (PStr ''Processed successfully.''))))
                   (\<lambda>d4.
                 lbnd (append_output d4) (\<lambda>_.
                 lbnd (io (delete env (name a))) (\<lambda>_.
                 lbnd (io (print (Deleted_file (display_name a)))) (\<lambda>_.
                 lret False))))))))))))"

definition single_audio_handler :: "string \<Rightarrow> exn \<Rightarrow> unit lio" where
  "single_audio_handler audio_path e =
     lbnd (io (logging ERROR (Error_processing_path audio_path (str_exn e)))) (\<lambda>_.
     append_failed audio_path)"

definition process_single_audio :: "env \<Rightarrow> string \<Rightarrow> unit lio" where
  "process_single_audio env audio_path =
     lbnd (io (now env)) (\<lambda>start_time ls w.
     case upload env audio_path w of
       (Inl e, w1) \<Rightarrow>
         lbnd (single_audio_handler audio_path e) (\<lambda>_.
         time_taken env start_time None) ls w1
     | (Inr audio_file, w1) \<Rightarrow>
         lbnd (ltry_except (single_audio_body env audio_path audio_file)
                (\<lambda>e. lbnd (single_audio_handler audio_path e) (\<lambda>_. lret False)))
           (\<lambda>returned.
            if returned then lret ()
            else time_taken env start_time (Some audio_file)) ls w1)"

text \<open>\<^verbatim>\<open>fetch_audio_files\<close>: the suffix test is case-sensitive here.\<close>

fun fetch_files :: "string \<Rightarrow> string list \<Rightarrow> string list \<Rightarrow> string list io" where
  "fetch_files rt [] audio_files w = (Inr audio_files, w)"
| "fetch_files rt (filename # files) audio_files w =
     (if endswith filename ''.mp3'' \<or> endswith filename ''.wav'' then
        fetch_files rt files (audio_files @ [path_join rt filename]) w
      else fetch_files rt files audio_files (snd (logging INFO (Excluded_file filename) w)))"

fun fetch_walk ::
  "(string \<times> string list \<times> string list) list \<Rightarrow> string list \<Rightarrow> string list io" where
  "fetch_walk [] audio_files w = (Inr audio_files, w)"
| "fetch_walk ((rt, dirs, files) # rest) audio_files w =
     (case fetch_files rt files audio_files w of
        (Inl e, w1) \<Rightarrow> (Inl e, w1)
      | (Inr audio_files', w1) \<Rightarrow> fetch_walk rest audio_files' w1)"

definition fetch_audio_files :: "env \<Rightarrow> string \<Rightarrow> string list io" where
  "fetch_audio_files env base_directory = fetch_walk (os_walk env base_directory) []"

text \<open>
  \<^verbatim>\<open>await asyncio.gather(*tasks)\<close> over the coroutines of one batch.
  \<^verbatim>\<open>process_single_audio\<close> never awaits, so each task runs to its end when the loop first
  steps it, in submission order; gather then raises the exception of the first task that
  raised, after every task of the batch has run.
\<close>

fun gather_loop ::
  "env \<Rightarrow> string list \<Rightarrow> exn option \<Rightarrow> lists \<Rightarrow> world \<Rightarrow> exn option \<times> lists \<times> world" where
  "gather_loop env [] first ls w = (first, ls, w)"
| "gather_loop env (audio # batch) first ls w =
     (case process_single_audio env audio ls w of
        (Inl e, ls', w') \<Rightarrow>
          gather_loop env batch (case first of None \<Rightarrow> Some e | Some e0 \<Rightarrow> Some e0) ls' w'
      | (Inr u, ls', w') \<Rightarrow> gather_loop env batch first ls' w')"

definition gather :: "env \<Rightarrow> string list \<Rightarrow> unit lio" where
  "gather env batch ls w =
     (case gather_loop env batch None ls w of
        (None, ls', w') \<Rightarrow> (Inr (), ls', w')
      | (Some e, ls', w') \<Rightarrow> (Inl e, ls', w'))"

text \<open>\<^verbatim>\<open>retry_failed_files\<close>: the loop fills a fresh list \<^verbatim>\<open>final_failed_files\<close>, which
  replaces the content of \<^verbatim>\<open>failed_files\<close> at the end.\<close>

fun retry_loop :: "env \<Rightarrow> string list \<Rightarrow> lists \<Rightarrow> world \<Rightarrow> lists \<times> world" where
  "retry_loop env [] ls w = (ls, w)"
| "retry_loop env (audio_path # rest) ls w =
     (case process_single_audio env audio_path ls w of
        (Inr u, ls', w') \<Rightarrow> retry_loop env rest ls' w'
      | (Inl e, ls', w') \<Rightarrow>
          (case logging ERROR (Retry_failed audio_path (str_exn e)) w' of
             (r, w'') \<Rightarrow>
               retry_loop env rest
                 (ls'\<lparr>output_json := output_json ls' @ [PDict [
                    (''FileName'', PStr audio_path),
                    (''Success'', PBool False),
                    (''Message'', PStr (''Error processing file on retry: '' @ str_exn e))]]\<rparr>)
                 w''))"

definition retry_failed_files :: "env \<Rightarrow> unit lio" where
  "retry_failed_files env =
     lbnd (io (logging INFO Retrying_failed_files)) (\<lambda>_ ls w.
     case retry_loop env (failed_files ls)
            \<lparr>output_json = output_json ls, failed_files = []\<rparr> w of
       (ls', w') \<Rightarrow> (Inr (), ls', w'))"

function audio_batches_from :: "env \<Rightarrow> nat \<Rightarrow> string list \<Rightarrow> nat \<Rightarrow> unit lio" where
  "audio_batches_from env bs audio_paths i ls w =
     (if 0 < bs \<and> i < length audio_paths then
        (case lbnd (io (print (Starting_batch (i div bs + 1)
                      ((length audio_paths + bs - 1) div bs)))) (\<lambda>_.
              lbnd (io (logging INFO (Starting_batch_with_files (i div bs + 1)
                      (take bs (drop i audio_paths))))) (\<lambda>_.
              gather env (take bs (drop i audio_paths)))) ls w of
           (Inl e, ls', w') \<Rightarrow> (Inl e, ls', w')
         | (Inr u, ls', w') \<Rightarrow> audio_batches_from env bs audio_paths (i + bs) ls' w')
      else (Inr (), ls, w))"
  by pat_completeness auto
termination
  by (relation "measure (\<lambda>(env, bs, ps, i, ls, w). length ps - i)") auto

definition process_audio_files :: "env \<Rightarrow> string list \<Rightarrow> nat \<Rightarrow> unit lio" where
  "process_audio_files env audio_paths bs =
     (if bs = 0 then lraise (Exn ZeroDivisionError ''integer division or modulo by zero'')
      else
        lbnd (audio_batches_from env bs audio_paths 0) (\<lambda>_ ls.
        if failed_files ls \<noteq> [] then retry_failed_files env ls else lret () ls))"

text \<open>\<^verbatim>\<open>str.split(sep)\<close>, \<^verbatim>\<open>sep.join\<close> and \<^verbatim>\<open>os.path.normpath\<close> as in \<^verbatim>\<open>posixpath\<close>.\<close>

fun split_on :: "char \<Rightarrow> string \<Rightarrow> string list" where
  "split_on c [] = [[]]"
| "split_on c (x # xs) =
     (if x = c then [] # split_on c xs
      else (case split_on c xs of p # ps \<Rightarrow> (x # p) # ps | [] \<Rightarrow> [[x]]))"

fun join_with :: "string \<Rightarrow> string list \<Rightarrow> string" where
  "join_with sep [] = []"
| "join_with sep [p] = p"
| "join_with sep (p # q # ps) = p @ sep @ join_with sep (q # ps)"

fun norm_comps :: "bool \<Rightarrow> string list \<Rightarrow> string list \<Rightarrow> string list" where
  "norm_comps initial_slashes [] new_comps = new_comps"
| "norm_comps initial_slashes (part # parts) new_comps =
     (if part = [] \<or> part = ''.'' then norm_comps initial_slashes parts new_comps
      else if part \<noteq> ''..'' \<or> (\<not> initial_slashes \<and> new_comps = [])
              \<or> (new_comps \<noteq> [] \<and> last new_comps = ''..'') then
        norm_comps initial_slashes parts (new_comps @ [part])
      else if new_comps \<noteq> [] then norm_comps initial_slashes parts (butlast new_comps)
      else norm_comps initial_slashes parts new_comps)"

definition normpath :: "string \<Rightarrow> string" where
  "normpath path =
     (if path = [] then ''.''
      else
        let initial_slashes =
              (if take 1 path = ''/'' then
                 (if take 2 path = ''//'' \<and> take 3 path \<noteq> ''///'' then 2 else 1)
               else (0::nat));
            new_comps = norm_comps (0 < initial_slashes) (split_on CHR ''/'' path) [];
            joined = replicate initial_slashes CHR ''/'' @ join_with ''/'' new_comps in
        if joined = [] then ''.'' else joined)"

text \<open>\<^verbatim>\<open>organize_output_by_folders\<close>. Every item of \<^verbatim>\<open>output_json\<close> is a dict; an item whose
  \<^verbatim>\<open>FilePath\<close> is not a string makes \<^verbatim>\<open>normpath\<close> raise.\<close>

fun add_to_folder ::
  "(string \<times> pyval list) list \<Rightarrow> string \<Rightarrow> pyval \<Rightarrow> (string \<times> pyval list) list" where
  "add_to_folder [] folder_name item = [(folder_name, [item])]"
| "add_to_folder ((k, items) # folder_data) folder_name item =
     (if k = folder_name then (k, items @ [item]) # folder_data
      else (k, items) # add_to_folder folder_data folder_name item)"

fun organize_loop ::
  "pyval list \<Rightarrow> (string \<times> pyval list) list \<Rightarrow> exn + (string \<times> pyval list) list" where
  "organize_loop [] folder_data = Inr folder_data"
| "organize_loop (item # items) folder_data =
     (case item of
        PDict kvs \<Rightarrow>
          (case map_of kvs ''FilePath'' of
             None \<Rightarrow> organize_loop items folder_data
           | Some (PStr file_path) \<Rightarrow>
               (let path_parts = split_on CHR ''/'' (normpath file_path) in
                if 2 \<le> length path_parts \<and> 3 \<le> length path_parts then
                  organize_loop items (add_to_folder folder_data (path_parts ! 1) item)
                else organize_loop items folder_data)
           | Some v \<Rightarrow>
               Inl (Exn TypeError ''expected str, bytes or os.PathLike object''))
      | other \<Rightarrow> organize_loop items folder_data)"

definition organize_output_by_folders :: "pyval list \<Rightarrow> exn + (string \<times> pyval list) list" where
  "organize_output_by_folders output = organize_loop output []"

fun save_folders :: "(string \<times> pyval list) list \<Rightarrow> unit io" where
  "save_folders [] w = (Inr (), w)"
| "save_folders ((folder_name, data) # rest) w =
     (let output_filename = path_join ''output'' (folder_name @ ''.json'') in
      case bnd (write_json output_filename (PList data)) (\<lambda>_.
           logging INFO (Output_saved output_filename)) w of
        (Inl e, w1) \<Rightarrow> (Inl e, w1)
      | (Inr u, w1) \<Rightarrow> save_folders rest w1)"

definition save_output :: "pyval list \<Rightarrow> unit io" where
  "save_output output =
     bnd (lift (organize_output_by_folders output)) (\<lambda>folder_data.
     save_folders folder_data)"

text \<open>The script under \<^verbatim>\<open>if __name__ == "__main__"\<close>, for a base directory.\<close>

definition run_script :: "env \<Rightarrow> string \<Rightarrow> unit lio" where
  "run_script env base_directory =
     lbnd (io (fetch_audio_files env base_directory)) (\<lambda>audio_file_paths.
     lbnd (io (print (Total_files (length audio_file_paths)))) (\<lambda>_.
     if audio_file_paths = [] then io (print No_audio_files_in_directory)
     else
       lbnd (io (now env)) (\<lambda>start_time.
       lbnd (\<lambda>ls. process_audio_files env audio_file_paths 10
                    \<lparr>output_json = [], failed_files = []\<rparr>) (\<lambda>_.
       lbnd (\<lambda>ls. if failed_files ls \<noteq> [] then retry_failed_files env ls else lret () ls)
         (\<lambda>_.
       lbnd (\<lambda>ls. io (save_output (output_json ls)) ls) (\<lambda>_.
       lbnd (io (now env)) (\<lambda>end_time.
       io (print (Total_processing_time (end_time - start_time))))))))))"

section \<open>Observations on a run\<close>

text \<open>How often a log line was written: the bodies of the decorated functions start
  with one, so it counts their invocations.\<close>

definition started :: "msg \<Rightarrow> world \<Rightarrow> nat" where
  "started m w = length (filter (\<lambda>ev. ev = Log INFO m) (trace w))"

text \<open>The world in which attempt \<open>k + 1\<close> of a retried operation starts, when the
  \<open>k\<close> attempts before it failed: after each failure the wrapper sleeps.\<close>

fun attempt_world :: "'a io \<Rightarrow> nat \<Rightarrow> world \<Rightarrow> world" where
  "attempt_world f 0 w = w"
| "attempt_world f (Suc k) w =
     emit (Sleep (wait_exponential 1 4 10 (Suc k))) (snd (f (attempt_world f k w)))"

text \<open>The documents written so far, with their paths, in the order of writing.\<close>

fun report_of :: "event \<Rightarrow> (string \<times> pyval) list" where
  "report_of (Write path doc) = [(path, doc)]"
| "report_of ev = []"

definition reports :: "world \<Rightarrow> (string \<times> pyval) list" where
  "reports w = concat (map report_of (trace w))"

text \<open>The keys of a dict, in order.\<close>

fun keys :: "pyval \<Rightarrow> string list" where
  "keys (PDict kvs) = map fst kvs"
| "keys v = []"

text \<open>An operation that writes no document.\<close>

definition quiet :: "'a io \<Rightarrow> bool" where
  "quiet m = (\<forall>w. reports (snd (m w)) = reports w)"

text \<open>The two shapes of a result of ImprovedVersionFinal's \<^verbatim>\<open>process_file\<close> for the path \<open>p\<close>.\<close>

definition item_result :: "string \<Rightarrow> pyval \<Rightarrow> bool" where
  "item_result p d =
     (getitem d ''FileName'' = Inr (PStr (basename p)) \<and>
      getitem d ''FilePath'' = Inr (PStr p) \<and>
      (keys d = [''FileName'', ''FilePath'', ''Success'', ''Transcription'', ''CallSummary'',
                 ''QA_Evaluation''] \<and>
       getitem d ''Success'' = Inr (PBool True) \<or>
       keys d = [''FileName'', ''FilePath'', ''Success'', ''Error'', ''Timing''] \<and>
       getitem d ''Success'' = Inr (PBool False) \<and>
       (case getitem d ''Error'' of Inr (PStr m) \<Rightarrow> True | other \<Rightarrow> False)))"

text \<open>The summary counters of a report add up to \<open>n\<close>, its \<^verbatim>\<open>TotalFiles\<close>.\<close>

definition report_counts :: "nat \<Rightarrow> pyval \<Rightarrow> bool" where
  "report_counts n doc =
     (case (getitem doc ''TotalFiles'', getitem doc ''SuccessfulFiles'',
            getitem doc ''FailedFiles'') of
        (Inr (PInt t), Inr (PInt s), Inr (PInt f)) \<Rightarrow>
          t = int n \<and> 0 \<le> s \<and> 0 \<le> f \<and> s + f = t
      | other \<Rightarrow> False)"

text \<open>The document at \<open>path\<close> is the report of the sub-directory: it is named after the
  directory, its counters add up to the number of audio files found there, and its
  \<^verbatim>\<open>Results\<close> hold one result per file, in the order of discovery.\<close>

definition folder_report :: "env \<Rightarrow> string \<Rightarrow> string \<Rightarrow> pyval \<Rightarrow> bool" where
  "folder_report env subdir path doc =
     (path = ''output/'' @ basename subdir @ ''.json'' \<and>
      keys doc = [''TotalFiles'', ''SuccessfulFiles'', ''FailedFiles'', ''Results''] \<and>
      report_counts (length (list_audio_files env subdir)) doc \<and>
      (case getitem doc ''Results'' of
         Inr (PList rs) \<Rightarrow> list_all2 item_result (list_audio_files env subdir) rs
       | other \<Rightarrow> False))"

section \<open>Concrete inputs\<close>

definition w0 :: world where
  "w0 = \<lparr>ticks = 0, calls = 0, trace = []\<rparr>"

text \<open>A remote service whose first request of the run fails and whose later requests
  succeed, and a parser that knows one document.\<close>

definition flaky_env :: env where
  "flaky_env = \<lparr>
     read_bytes = (\<lambda>p. Inr ''RIFF''),
     generate_content = (\<lambda>req n.
       if n = 0 then Inl (Exn RemoteError ''503 unavailable'')
       else (case req of
               Transcribe a m \<Rightarrow> Inr (Some ''hello there '')
             | Analyze t \<Rightarrow> Inr (Some ''{}''))),
     json_loads = (\<lambda>s.
       if s = ''{}'' then Inr (PDict []) else Inl (Exn JSONDecodeError ''Expecting value'')),
     time_time = real,
     round2 = (\<lambda>x. x),
     os_walk = (\<lambda>d. []),
     os_listdir = (\<lambda>d. []),
     upload_file = (\<lambda>p n. Inr (Some \<lparr>name = ''files/1'', display_name = p\<rparr>)),
     delete_file = (\<lambda>nm n. Inr ())\<rparr>"

text \<open>A remote service that is down for the whole run.\<close>

definition down_env :: env where
  "down_env =
     flaky_env\<lparr>generate_content := (\<lambda>req n. Inl (Exn RemoteError ''503 unavailable''))\<rparr>"

text \<open>The JSON text \<^verbatim>\<open>{"call_summary": "", "qa_evaluation": []}\<close>.\<close>

definition quoted :: "string \<Rightarrow> string" where
  "quoted s = [CHR 0x22] @ s @ [CHR 0x22]"

definition empty_qa_text :: string where
  "empty_qa_text =
     ''{'' @ quoted ''call_summary'' @ '': '' @ quoted [] @ '', '' @ quoted ''qa_evaluation''
       @ '': []}''"

text \<open>A run over one folder with two audio files and a text file. The audio bytes of a
  file stand for its path, so the service can tell the files apart: every request for
  \<^verbatim>\<open>b.MP3\<close> fails with an exception whose text is empty, every other transcription is
  blank, and the analysis answers with an object whose summary and evaluation are empty.\<close>

definition demo_env :: env where
  "demo_env = \<lparr>
     read_bytes = (\<lambda>p. Inr p),
     generate_content = (\<lambda>req n.
       case req of
         Transcribe a m \<Rightarrow>
           if a = ''AudioFiles/calls/b.MP3'' then Inl (Exn RemoteError [])
           else Inr (Some '' '')
       | Analyze t \<Rightarrow> Inr (Some empty_qa_text)
       | Transcribe_uploaded h \<Rightarrow> Inr (Some ''hello'')
       | Evaluate_uploaded h \<Rightarrow> Inr (Some empty_qa_text)),
     json_loads = (\<lambda>s.
       if s = empty_qa_text
       then Inr (PDict [(''call_summary'', PStr []), (''qa_evaluation'', PList [])])
       else Inl (Exn JSONDecodeError ''Expecting value'')),
     time_time = real,
     round2 = (\<lambda>x. x),
     os_walk = (\<lambda>d. [(''AudioFiles'', [''calls''], []),
                      (''AudioFiles/calls'', [], [''a.wav'', ''b.MP3'', ''notes.txt''])]),
     os_listdir = (\<lambda>d. if d = ''AudioFiles/calls'' then [''a.wav'', ''b.MP3'', ''notes.txt'']
                        else [''calls'']),
     upload_file = (\<lambda>p n. Inr (Some \<lparr>name = ''files/1'', display_name = p\<rparr>)),
     delete_file = (\<lambda>nm n. Inr ())\<rparr>"

text \<open>Two folders of the same name under different parents.\<close>

definition clash_env :: env where
  "clash_env = demo_env\<lparr>
     os_walk := (\<lambda>d. [(''AudioFiles/x/calls'', [], [''a.wav'']),
                       (''AudioFiles/y/calls'', [], [''c.wav''])]),
     os_listdir := (\<lambda>d. if d = ''AudioFiles/x/calls'' then [''a.wav''] else [''c.wav''])\<rparr>"

text \<open>A service whose upload fails, and one whose answers are never valid JSON.\<close>

definition no_upload_env :: env where
  "no_upload_env = demo_env\<lparr>upload_file := (\<lambda>p n. Inl (Exn OSError ''No such file''))\<rparr>"

definition garbled_env :: env where
  "garbled_env = demo_env\<lparr>generate_content := (\<lambda>req n. Inr (Some ''not json''))\<rparr>"

definition no_lists :: lists where
  "no_lists = \<lparr>output_json = [], failed_files = []\<rparr>"

text \<open>A service that accepts the first upload of the run and refuses every later one,
  and whose answers are never valid JSON.\<close>

definition one_upload_env :: env where
  "one_upload_env = garbled_env\<lparr>
     os_walk := (\<lambda>d. [(''test/a'', [], [''x.wav''])]),
     upload_file := (\<lambda>p n.
       if n < 2 then Inr (Some \<lparr>name = ''files/1'', display_name = p\<rparr>)
       else Inl (Exn OSError ''No such file''))\<rparr>"

section \<open>The retry policy\<close>

declare retry.simps [simp del]

lemma retry_success: "fst (f w) = Inr v \<Longrightarrow> retry m wt a f w = f w"
  by (subst retry.simps) (auto split: prod.splits sum.splits)

lemma retry_last: "m \<le> a \<Longrightarrow> retry m wt a f w = f w"
  by (subst retry.simps) (auto split: prod.splits sum.splits)

lemma retry_again:
  "fst (f w) = Inl e \<Longrightarrow> a < m \<Longrightarrow>
   retry m wt a f w = retry m wt (Suc a) f (emit (Sleep (wt a)) (snd (f w)))"
  by (subst retry.simps) (auto simp: sleep_def split: prod.splits sum.splits)

lemma retry_from:
  "\<forall>j<k. isl (fst (f (attempt_world f j w))) \<Longrightarrow> k < 3 \<Longrightarrow>
   retrying f w = retry 3 (wait_exponential 1 4 10) (Suc k) f (attempt_world f k w)"
proof (induction k)
  case 0
  then show ?case by (simp add: retrying_def)
next
  case (Suc k)
  then have ih: "retrying f w = retry 3 (wait_exponential 1 4 10) (Suc k) f (attempt_world f k w)"
    by simp
  from Suc.prems have "isl (fst (f (attempt_world f k w)))" by simp
  then obtain e where e: "fst (f (attempt_world f k w)) = Inl e"
    by (cases "fst (f (attempt_world f k w))") auto
  from Suc.prems have "Suc k < 3" by simp
  then have "retry 3 (wait_exponential 1 4 10) (Suc k) f (attempt_world f k w) =
      retry 3 (wait_exponential 1 4 10) (Suc (Suc k)) f
        (emit (Sleep (wait_exponential 1 4 10 (Suc k))) (snd (f (attempt_world f k w))))"
    using e by (intro retry_again) auto
  with ih show ?case by simp
qed

lemma started_emit_sleep [simp]: "started m (emit (Sleep n) w) = started m w"
  by (simp add: started_def emit_def)

lemma started_attempt_world:
  "(\<And>w'. started m (snd (f w')) = Suc (started m w')) \<Longrightarrow>
   started m (attempt_world f k w) = started m w + k"
  by (induction k) simp_all

lemma transcribe_body_started:
  "started (Starting_transcription p) (snd (transcribe_audio_body env p w)) =
   Suc (started (Starting_transcription p) w)"
  by (auto simp: transcribe_audio_body_def bnd_def try_except_def logging_def lift_def
      remote_def ret_def raise_def emit_def started_def Let_def split: prod.splits sum.splits)

lemma analyze_body_started:
  "started Starting_transcript_analysis (snd (analyze_transcript_body env t w)) =
   Suc (started Starting_transcript_analysis w)"
  by (auto simp: analyze_transcript_body_def bnd_def try_except_def logging_def lift_def
      remote_def ret_def raise_def emit_def started_def Let_def split: prod.splits sum.splits)

lemma all_less_3: "(\<forall>j<3::nat. P j) = (P 0 \<and> P (Suc 0) \<and> P (Suc (Suc 0)))"
  by (auto simp: numeral_3_eq_3 less_Suc_eq)

lemmas run_defs =
  transcribe_audio_body_def analyze_transcript_body_def bnd_def try_except_def logging_def
  lift_def remote_def ret_def raise_def emit_def Let_def sleep_def now_def

text \<open>
  C4. \<^verbatim>\<open>transcribe_audio\<close> and \<^verbatim>\<open>analyze_transcript\<close> are \<open>retrying\<close> applied to their
  bodies, and each body writes its "Starting ..." log line once per invocation
  (\<open>transcribe_body_started\<close>, \<open>analyze_body_started\<close>). For every operation \<open>f\<close> that
  announces each invocation by the line \<open>m\<close>: when all three attempts fail, the wrapper
  returns exactly what the third attempt returned (its exception, unchanged) and \<open>f\<close> was
  invoked exactly 3 times; when attempt \<open>k \<le> 3\<close> is the first to succeed, the wrapper
  returns its value and \<open>f\<close> was invoked exactly \<open>k\<close> times.
\<close>

theorem retry_attempts:
  assumes f: "\<forall>w'. started m (snd (f w')) = Suc (started m w')"
  shows "((\<forall>j<3. isl (fst (f (attempt_world f j w)))) \<longrightarrow>
            retrying f w = f (attempt_world f 2 w) \<and> isl (fst (retrying f w)) \<and>
            started m (snd (retrying f w)) = started m w + 3) \<and>
         (1 \<le> k \<and> k \<le> 3 \<and> (\<forall>j<k - 1. isl (fst (f (attempt_world f j w)))) \<and>
            fst (f (attempt_world f (k - 1) w)) = Inr v \<longrightarrow>
            fst (retrying f w) = Inr v \<and> started m (snd (retrying f w)) = started m w + k)"
proof -
  have st: "\<And>w'. started m (snd (f w')) = Suc (started m w')"
    using f by simp
  have cnt: "\<And>n. started m (snd (f (attempt_world f n w))) = started m w + Suc n"
    using started_attempt_world [of m f, OF st] st by simp
  have a: "retrying f w = f (attempt_world f 2 w) \<and> isl (fst (retrying f w)) \<and>
      started m (snd (retrying f w)) = started m w + 3"
    if all: "\<forall>j<3. isl (fst (f (attempt_world f j w)))"
  proof -
    from all have "\<forall>j<2. isl (fst (f (attempt_world f j w)))" by simp
    then have "retrying f w = retry 3 (wait_exponential 1 4 10) 3 f (attempt_world f 2 w)"
      using retry_from [of 2 f w] by (simp add: numeral_3_eq_3)
    then have eq: "retrying f w = f (attempt_world f 2 w)"
      by (simp add: retry_last)
    moreover from all have "isl (fst (f (attempt_world f 2 w)))" by simp
    ultimately show ?thesis using cnt [of 2] by simp
  qed
  have b: "fst (retrying f w) = Inr v \<and> started m (snd (retrying f w)) = started m w + k"
    if k: "1 \<le> k" "k \<le> 3" and fails: "\<forall>j<k - 1. isl (fst (f (attempt_world f j w)))"
      and ok: "fst (f (attempt_world f (k - 1) w)) = Inr v"
  proof -
    from k have "k - 1 < 3" by simp
    with fails have "retrying f w =
        retry 3 (wait_exponential 1 4 10) (Suc (k - 1)) f (attempt_world f (k - 1) w)"
      by (rule retry_from)
    with ok have "retrying f w = f (attempt_world f (k - 1) w)"
      by (simp add: retry_success)
    with ok cnt [of "k - 1"] k show ?thesis by simp
  qed
  from a b show ?thesis by blast
qed

theorem retry_attempts_witness:
  "(retrying (transcribe_audio_body down_env ''a.wav'') w0 =
      transcribe_audio_body down_env ''a.wav''
        (attempt_world (transcribe_audio_body down_env ''a.wav'') 2 w0) \<and>
    isl (fst (retrying (transcribe_audio_body down_env ''a.wav'') w0)) \<and>
    started (Starting_transcription ''a.wav'')
      (snd (retrying (transcribe_audio_body down_env ''a.wav'') w0)) =
    started (Starting_transcription ''a.wav'') w0 + 3) \<and>
   (fst (retrying (analyze_transcript_body flaky_env ''hello'') w0) = Inr (PDict []) \<and>
    started Starting_transcript_analysis
      (snd (retrying (analyze_transcript_body flaky_env ''hello'') w0)) =
    started Starting_transcript_analysis w0 + 2)"
  (is "?A \<and> ?B")
proof
  have st: "\<forall>w'. started (Starting_transcription ''a.wav'')
      (snd (transcribe_audio_body down_env ''a.wav'' w')) =
      Suc (started (Starting_transcription ''a.wav'') w')"
    by (simp add: transcribe_body_started)
  have d: "\<forall>j<3. isl (fst (transcribe_audio_body down_env ''a.wav''
      (attempt_world (transcribe_audio_body down_env ''a.wav'') j w0)))"
    by (simp add: all_less_3 run_defs down_env_def flaky_env_def w0_def)
  from retry_attempts [OF st, of w0 0 "''''"] d show ?A by blast
next
  have st: "\<forall>w'. started Starting_transcript_analysis
      (snd (analyze_transcript_body flaky_env ''hello'' w')) =
      Suc (started Starting_transcript_analysis w')"
    by (simp add: analyze_body_started)
  have f0: "\<forall>j<2 - 1. isl (fst (analyze_transcript_body flaky_env ''hello''
      (attempt_world (analyze_transcript_body flaky_env ''hello'') j w0)))"
    by (simp add: run_defs flaky_env_def w0_def)
  have f1: "fst (analyze_transcript_body flaky_env ''hello''
      (attempt_world (analyze_transcript_body flaky_env ''hello'') (2 - 1) w0)) = Inr (PDict [])"
    by (simp add: run_defs flaky_env_def w0_def wait_exponential_def)
  from retry_attempts [OF st, of w0 2 "PDict []"] f0 f1 show ?B by simp
qed

text \<open>
  C8. When attempts \<open>1..n\<close> of a retried operation have failed and \<open>n < 3\<close>, the wrapper
  goes on with attempt \<open>n + 1\<close> in the world reached by sleeping
  \<open>max min_wait (min max_wait (min max_wait (base * 2^(n-1))))\<close> seconds after the failed
  attempt \<open>n\<close>, with base 1, min_wait 4 and max_wait 10: the exponential term capped at
  max_wait and clamped to the window. With these numbers the wait lies in \<open>[4, 10]\<close>.
\<close>

theorem retry_backoff_wait:
  assumes n: "1 \<le> n" "n < 3"
    and fails: "\<forall>j<n. isl (fst (f (attempt_world f j w)))"
  shows "retrying f w =
           retry 3 (wait_exponential 1 4 10) (Suc n) f
             (emit (Sleep (max 4 (min 10 (min 10 (1 * 2 ^ (n - 1))))))
                (snd (f (attempt_world f (n - 1) w)))) \<and>
         wait_exponential 1 4 10 n = max 4 (min 10 (min 10 (1 * 2 ^ (n - 1)))) \<and>
         4 \<le> wait_exponential 1 4 10 n \<and> wait_exponential 1 4 10 n \<le> 10"
proof -
  from n obtain k where k: "n = Suc k" by (cases n) auto
  have "attempt_world f n w =
      emit (Sleep (max 4 (min 10 (min 10 (1 * 2 ^ (n - 1))))))
        (snd (f (attempt_world f (n - 1) w)))"
    by (simp add: k wait_exponential_def)
  moreover have "retrying f w =
      retry 3 (wait_exponential 1 4 10) (Suc n) f (attempt_world f n w)"
    using fails n by (intro retry_from) auto
  ultimately show ?thesis by (simp add: wait_exponential_def)
qed

theorem retry_backoff_wait_witness:
  "retrying (transcribe_audio_body down_env ''a.wav'') w0 =
     retry 3 (wait_exponential 1 4 10) (Suc 2) (transcribe_audio_body down_env ''a.wav'')
       (emit (Sleep (max 4 (min 10 (min 10 (1 * 2 ^ (2 - 1))))))
          (snd (transcribe_audio_body down_env ''a.wav''
             (attempt_world (transcribe_audio_body down_env ''a.wav'') (2 - 1) w0)))) \<and>
   wait_exponential 1 4 10 2 = max 4 (min 10 (min 10 (1 * 2 ^ (2 - 1)))) \<and>
   4 \<le> wait_exponential 1 4 10 2 \<and> wait_exponential 1 4 10 2 \<le> 10 \<and>
   wait_exponential 1 4 10 1 = 4 \<and> wait_exponential 1 4 10 2 = 4"
proof -
  have d: "\<forall>j<2. isl (fst (transcribe_audio_body down_env ''a.wav''
      (attempt_world (transcribe_audio_body down_env ''a.wav'') j w0)))"
    by (simp add: numeral_2_eq_2 less_Suc_eq run_defs down_env_def flaky_env_def w0_def)
  have n: "(1::nat) \<le> 2" "(2::nat) < 3" by simp_all
  have v: "wait_exponential 1 4 10 1 = 4 \<and> wait_exponential 1 4 10 2 = 4"
    by (simp add: wait_exponential_def)
  from retry_backoff_wait [OF n d] v show ?thesis by blast
qed

section \<open>The item pipeline, the batch scheduler and the reports\<close>

declare batches_from.simps [simp del]

declare audio_batches_from.simps [simp del]




lemma process_file_shape:
  "(\<exists>w' transcript qa cs qe.
      process_file env p w = (Inr (PDict [
          (''FileName'', PStr (basename p)),
          (''FilePath'', PStr p),
          (''Success'', PBool True),
          (''Transcription'', PStr transcript),
          (''CallSummary'', cs),
          (''QA_Evaluation'', qe)]), w') \<and>
      (\<exists>w1. fst (transcribe_audio env p w1) = Inr transcript) \<and>
      (\<exists>w2. fst (analyze_transcript env transcript w2) = Inr qa) \<and>
      getitem qa ''call_summary'' = Inr cs \<and> getitem qa ''qa_evaluation'' = Inr qe) \<or>
   (\<exists>w' e n.
      process_file env p w = (Inr (PDict [
          (''FileName'', PStr (basename p)),
          (''FilePath'', PStr p),
          (''Success'', PBool False),
          (''Error'', PStr (str_exn e)),
          (''Timing'', PDict [(''TotalTime'',
             PFloat (round2 env (time_time env n - time_time env (ticks w))))])]), w'))"
  unfolding process_file_def bnd_def try_except_def logging_def lift_def
      ret_def raise_def Let_def now_def sleep_def
  by (auto split: prod.splits sum.splits) (metis fst_conv)+


lemma process_file_item:
  "\<exists>d w'. process_file env p w = (Inr d, w') \<and> item_result p d"
  using process_file_shape [of env p w]
  by (auto simp: item_result_def)

lemma reports_emit [simp]: "reports (emit ev w) = reports w @ report_of ev"
  by (simp add: reports_def emit_def)

lemma reports_ticks [simp]: "reports (w\<lparr>ticks := n\<rparr>) = reports w"
  by (simp add: reports_def)

lemma reports_calls [simp]: "reports (w\<lparr>calls := n\<rparr>) = reports w"
  by (simp add: reports_def)

lemma quiet_ret [simp]: "quiet (ret v)"
  by (simp add: quiet_def ret_def)

lemma quiet_raise [simp]: "quiet (raise e)"
  by (simp add: quiet_def raise_def)

lemma quiet_lift [simp]: "quiet (lift r)"
  by (simp add: quiet_def lift_def)

lemma quiet_logging [simp]: "quiet (logging l m)"
  by (simp add: quiet_def logging_def)

lemma quiet_sleep [simp]: "quiet (sleep n)"
  by (simp add: quiet_def sleep_def)

lemma quiet_now [simp]: "quiet (now env)"
  by (simp add: quiet_def now_def)

lemma quiet_remote [simp]: "quiet (remote env req)"
  by (simp add: quiet_def remote_def)

lemma quiet_bnd: "quiet m \<Longrightarrow> (\<And>v. quiet (k v)) \<Longrightarrow> quiet (bnd m k)"
  unfolding quiet_def bnd_def
  by (auto split: prod.splits sum.splits) (metis snd_conv)+

lemma quiet_try_except: "quiet b \<Longrightarrow> (\<And>e. quiet (h e)) \<Longrightarrow> quiet (try_except b h)"
  unfolding quiet_def try_except_def
  by (auto split: prod.splits sum.splits) (metis snd_conv)+

lemma quiet_if: "quiet a \<Longrightarrow> quiet b \<Longrightarrow> quiet (if c then a else b)"
  by simp

lemma quiet_let: "(\<And>x. quiet (f x)) \<Longrightarrow> quiet (let x = v in f x)"
  by simp

lemma reports_retry:
  "quiet f \<Longrightarrow> reports (snd (retry m wt a f w)) = reports w"
proof (induction m wt a f w rule: retry.induct)
  case (1 m wt a f w)
  from "1.prems" have q: "reports (snd (f w)) = reports w" by (simp add: quiet_def)
  show ?case
  proof (cases "f w")
    case (Pair r w1)
    with q have w1: "reports w1 = reports w" by simp
    show ?thesis
    proof (cases r)
      case (Inr x)
      with Pair w1 show ?thesis by (subst retry.simps) simp
    next
      case (Inl e)
      show ?thesis
      proof (cases "m \<le> a")
        case True
        with Pair Inl w1 show ?thesis by (subst retry.simps) simp
      next
        case False
        from "1.IH" [OF Pair [symmetric] _ False "1.prems"] Inl
        have "reports (snd (retry m wt (Suc a) f (snd (sleep (wt a) w1)))) =
            reports (snd (sleep (wt a) w1))" by simp
        with Pair Inl False w1 show ?thesis
          by (subst retry.simps) (simp add: sleep_def)
      qed
    qed
  qed
qed

lemma quiet_retrying:
  assumes "quiet f"
  shows "quiet (retrying f)"
  unfolding quiet_def retrying_def using assms by (simp add: reports_retry)

lemma quiet_transcribe_audio: "quiet (transcribe_audio env p)"
  unfolding transcribe_audio_def transcribe_audio_body_def Let_def
  by (intro quiet_retrying quiet_bnd quiet_try_except quiet_logging quiet_lift quiet_remote
      quiet_ret quiet_raise)

lemma quiet_analyze_transcript: "quiet (analyze_transcript env t)"
  unfolding analyze_transcript_def analyze_transcript_body_def
  by (intro quiet_retrying quiet_bnd quiet_try_except quiet_logging quiet_lift quiet_remote
      quiet_ret quiet_raise quiet_if)

lemma quiet_process_file: "quiet (process_file env p)"
  unfolding process_file_def Let_def
  by (intro quiet_bnd quiet_try_except quiet_logging quiet_lift quiet_now quiet_sleep
      quiet_ret quiet_raise quiet_transcribe_audio quiet_analyze_transcript)

lemma process_batch_loop_results:
  "\<exists>rs' w'. process_batch_loop env files rs w = (Inr (rs @ rs'), w') \<and>
     list_all2 item_result files rs' \<and> reports w' = reports w"
proof (induction files arbitrary: rs w)
  case Nil
  then show ?case by simp
next
  case (Cons f0 files)
  from process_file_item [of env f0 w] obtain d w1
    where d: "process_file env f0 w = (Inr d, w1)" "item_result f0 d" by blast
  from quiet_process_file [of env f0] d(1) have r1: "reports w1 = reports w"
    by (auto simp: quiet_def dest: spec [of _ w])
  from Cons.IH [of "rs @ [d]" "snd (sleep 2 w1)"] obtain rs' w'
    where ih: "process_batch_loop env files (rs @ [d]) (snd (sleep 2 w1)) =
        (Inr ((rs @ [d]) @ rs'), w')" "list_all2 item_result files rs'"
      "reports w' = reports (snd (sleep 2 w1))" by blast
  have "process_batch_loop env (f0 # files) rs w = (Inr (rs @ (d # rs')), w')"
    using d ih by simp
  moreover have "list_all2 item_result (f0 # files) (d # rs')"
    using d ih by simp
  moreover have "reports w' = reports w"
    using ih r1 by (simp add: sleep_def)
  ultimately show ?case by blast
qed

lemma process_batch_results:
  "\<exists>rs w'. process_batch env files w = (Inr rs, w') \<and>
     list_all2 item_result files rs \<and> reports w' = reports w"
  using process_batch_loop_results [of env files "[]" w] by (simp add: process_batch_def)

lemma batches_from_results:
  "0 < bs \<Longrightarrow>
   \<exists>rs' w'. batches_from env bs files i acc w = (Inr (acc @ rs'), w') \<and>
     list_all2 item_result (drop i files) rs' \<and> reports w' = reports w"
proof (induction env bs files i acc w rule: batches_from.induct)
  case (1 env bs files i acc w)
  show ?case
  proof (cases "i < length files")
    case False
    then show ?thesis by (subst batches_from.simps) simp
  next
    case True
    let ?w0 = "snd (logging INFO
        (Processing_batch (i div bs + 1) ((length files + bs - 1) div bs)) w)"
    from process_batch_results [of env "take bs (drop i files)" ?w0] obtain rs w1
      where b: "process_batch env (take bs (drop i files)) ?w0 = (Inr rs, w1)"
        "list_all2 item_result (take bs (drop i files)) rs" "reports w1 = reports ?w0"
      by blast
    have step: "bnd (logging INFO
        (Processing_batch (i div bs + 1) ((length files + bs - 1) div bs)))
        (\<lambda>_. process_batch env (take bs (drop i files))) w = (Inr rs, w1)"
      using b(1) by (simp add: bnd_def logging_def)
    from "1.IH" [OF _ step [symmetric] refl] True "1.prems" obtain rs' w'
      where ih: "batches_from env bs files (i + bs) (acc @ rs) (snd (sleep 10 w1)) =
          (Inr ((acc @ rs) @ rs'), w')"
        "list_all2 item_result (drop (i + bs) files) rs'"
        "reports w' = reports (snd (sleep 10 w1))" by blast
    have "batches_from env bs files i acc w = (Inr (acc @ (rs @ rs')), w')"
      using True "1.prems" step ih(1) by (subst batches_from.simps) simp
    moreover have "list_all2 item_result (drop i files) (rs @ rs')"
    proof -
      have "drop i files = take bs (drop i files) @ drop (i + bs) files"
        by (metis append_take_drop_id drop_drop add.commute)
      then show ?thesis using b(2) ih(2) by (metis list_all2_appendI)
    qed
    moreover have "reports w' = reports w"
      using ih(3) b(3) by (simp add: sleep_def logging_def)
    ultimately show ?thesis by blast
  qed
qed

lemma process_in_batches_results:
  "0 < bs \<Longrightarrow>
   \<exists>rs w'. process_in_batches env bs files w = (Inr rs, w') \<and>
     list_all2 item_result files rs \<and> reports w' = reports w"
  using batches_from_results [of bs env files 0 "[]" w] by (simp add: process_in_batches_def)

lemma item_result_success:
  "item_result p d \<Longrightarrow> \<exists>b. getitem d ''Success'' = Inr (PBool b)"
  by (auto simp: item_result_def)

lemma count_results_total:
  "list_all2 item_result files rs \<Longrightarrow>
   \<exists>s f. count_results truthy rs = Inr s \<and>
     count_results (\<lambda>v. \<not> truthy v) rs = Inr f \<and> s + f = length rs"
proof (induction files rs rule: list_all2_induct)
  case Nil
  then show ?case by simp
next
  case (Cons p ps d ds)
  from item_result_success [OF Cons.hyps(1)] obtain b
    where "getitem d ''Success'' = Inr (PBool b)" by blast
  with Cons.IH show ?case by (cases b) auto
qed

lemma process_subdir_empty:
  "list_audio_files env subdir = [] \<Longrightarrow> process_subdir env ts subdir w = (Inr (), w)"
  by (simp add: process_subdir_def ret_def)

lemma process_subdir_report:
  assumes ne: "list_audio_files env subdir \<noteq> []"
  shows "\<exists>doc w'. process_subdir env ts subdir w = (Inr (), w') \<and>
     reports w' = reports w @ [(''output/'' @ basename subdir @ ''.json'', doc)] \<and>
     folder_report env subdir (''output/'' @ basename subdir @ ''.json'') doc"
proof -
  let ?files = "list_audio_files env subdir"
  let ?w0 = "snd (logging INFO (Found_audio_files (length ?files) subdir) w)"
  have bs: "0 < batch_size" by (simp add: batch_size_def)
  from process_in_batches_results [OF bs, of env ?files ?w0] obtain rs w1
    where b: "process_in_batches env batch_size ?files ?w0 = (Inr rs, w1)"
      "list_all2 item_result ?files rs" "reports w1 = reports ?w0" by blast
  from b(2) ne have rs_ne: "rs \<noteq> []" by auto
  from b(2) have len: "length rs = length ?files" by (simp add: list_all2_lengthD)
  from count_results_total [OF b(2)] obtain s f
    where c: "count_results truthy rs = Inr s"
      "count_results (\<lambda>v. \<not> truthy v) rs = Inr f" "s + f = length rs" by blast
  let ?doc = "PDict [
      (''TotalFiles'', PInt (int (length ?files))),
      (''SuccessfulFiles'', PInt (int s)),
      (''FailedFiles'', PInt (int f)),
      (''Results'', PList rs)]"
  have "\<exists>w'. process_subdir env ts subdir w = (Inr (), w') \<and>
      reports w' = reports w @ [(''output/'' @ basename subdir @ ''.json'', ?doc)]"
    using ne b(1) b(3) rs_ne c(1) c(2)
    by (simp add: process_subdir_def Let_def bnd_def logging_def now_def lift_def
        write_json_def ret_def)
  moreover have "folder_report env subdir (''output/'' @ basename subdir @ ''.json'') ?doc"
    using c(3) len b(2) by (simp add: folder_report_def report_counts_def)
  ultimately show ?thesis by blast
qed

lemma for_subdirs_reports:
  "\<exists>new w'. for_subdirs env ts subdirs w = (Inr (), w') \<and>
     reports w' = reports w @ new \<and>
     list_all2 (\<lambda>subdir (path, doc). folder_report env subdir path doc)
       (filter (\<lambda>s. list_audio_files env s \<noteq> []) subdirs) new"
proof (induction subdirs arbitrary: w)
  case Nil
  then show ?case by simp
next
  case (Cons subdir subdirs)
  show ?case
  proof (cases "list_audio_files env subdir = []")
    case True
    with Cons.IH [of w] show ?thesis by (simp add: process_subdir_empty)
  next
    case False
    from process_subdir_report [OF False, of ts w] obtain doc w1
      where s: "process_subdir env ts subdir w = (Inr (), w1)"
        "reports w1 = reports w @ [(''output/'' @ basename subdir @ ''.json'', doc)]"
        "folder_report env subdir (''output/'' @ basename subdir @ ''.json'') doc" by blast
    from Cons.IH [of w1] obtain new w'
      where ih: "for_subdirs env ts subdirs w1 = (Inr (), w')" "reports w' = reports w1 @ new"
        "list_all2 (\<lambda>subdir (path, doc). folder_report env subdir path doc)
          (filter (\<lambda>s. list_audio_files env s \<noteq> []) subdirs) new" by blast
    have "for_subdirs env ts (subdir # subdirs) w = (Inr (), w')"
      using s(1) ih(1) by simp
    moreover have "reports w' =
        reports w @ ((''output/'' @ basename subdir @ ''.json'', doc) # new)"
      using s(2) ih(2) by simp
    moreover have "list_all2 (\<lambda>subdir (path, doc). folder_report env subdir path doc)
        (filter (\<lambda>s. list_audio_files env s \<noteq> []) (subdir # subdirs))
        ((''output/'' @ basename subdir @ ''.json'', doc) # new)"
      using False s(3) ih(3) by simp
    ultimately show ?thesis by blast
  qed
qed

lemma main_reports:
  "\<exists>new w'. main env directory w = (Inr (), w') \<and>
     reports w' = reports w @ new \<and>
     list_all2 (\<lambda>subdir (path, doc). folder_report env subdir path doc)
       (filter (\<lambda>s. list_audio_files env s \<noteq> []) (audio_subdirs env directory)) new"
proof (cases "audio_subdirs env directory = []")
  case True
  then show ?thesis
    by (simp add: main_def bnd_def now_def logging_def Let_def)
next
  case False
  let ?w0 = "snd (now env w)"
  from for_subdirs_reports [of env "time_time env (ticks w)" "audio_subdirs env directory" ?w0]
  obtain new w1
    where f: "for_subdirs env (time_time env (ticks w)) (audio_subdirs env directory) ?w0 =
        (Inr (), w1)" "reports w1 = reports ?w0 @ new"
      "list_all2 (\<lambda>subdir (path, doc). folder_report env subdir path doc)
        (filter (\<lambda>s. list_audio_files env s \<noteq> []) (audio_subdirs env directory)) new"
    by blast
  have "\<exists>w'. main env directory w = (Inr (), w') \<and> reports w' = reports w @ new"
    using False f(1) f(2)
    by (simp add: main_def bnd_def now_def logging_def Let_def)
  with f(3) show ?thesis by blast
qed

section \<open>Item results, batches and folder reports: the claims\<close>

lemmas eval_defs =
  process_file_def transcribe_audio_def analyze_transcript_def retrying_def
  transcribe_audio_body_def analyze_transcript_body_def bnd_def try_except_def logging_def
  lift_def remote_def ret_def raise_def emit_def Let_def sleep_def now_def
  demo_env_def w0_def lower_def lower_char_def endswith_def strip_def is_space_def
  basename_def wait_exponential_def empty_qa_text_def quoted_def

lemmas rec_defs =
  process_single_audio_def single_audio_body_def single_audio_handler_def time_taken_def
  lbnd_def lret_def lraise_def io_def ltry_except_def append_output_def append_failed_def
  upload_def delete_def print_def gather_def process_audio_files_def retry_failed_files_def
  no_lists_def no_upload_env_def garbled_env_def

lemma item_result_file_path:
  "list_all2 item_result files rs \<Longrightarrow>
   map (\<lambda>r. getitem r ''FilePath'') rs = map (\<lambda>p. Inr (PStr p)) files"
  by (induction files rs rule: list_all2_induct) (auto simp: item_result_def)

text \<open>
  C1. \<^verbatim>\<open>process_file\<close> of ImprovedVersionFinal.py always returns a result
  (\<open>process_file_item\<close>). \<^verbatim>\<open>process_single_audio\<close> of recentAsPerHuzaifa-upgraded.py
  does not: when \<^verbatim>\<open>genai.upload_file\<close> raises, the handler records the path as failed, and
  the line after the \<^verbatim>\<open>try\<close> statement then reads the local \<^verbatim>\<open>audio_file\<close>, which was never
  bound. The UnboundLocalError leaves the function, and \<^verbatim>\<open>asyncio.gather\<close> passes it on to
  \<^verbatim>\<open>process_audio_files\<close>, which ends without a retry pass.
\<close>

theorem single_audio_exception_escapes:
  "fst (process_single_audio no_upload_env ''test/a/x.wav'' no_lists w0) =
     Inl (Exn UnboundLocalError
       ''cannot access local variable audio_file where it is not associated with a value'') \<and>
   fst (snd (process_single_audio no_upload_env ''test/a/x.wav'' no_lists w0)) =
     \<lparr>output_json = [], failed_files = [''test/a/x.wav'']\<rparr> \<and>
   fst (process_audio_files no_upload_env [''test/a/x.wav'', ''test/a/y.wav''] 10 no_lists w0) =
     Inl (Exn UnboundLocalError
       ''cannot access local variable audio_file where it is not associated with a value'')"
  by (simp add: rec_defs eval_defs audio_batches_from.simps)

text \<open>
  C2, as the code has it. In ImprovedVersionFinal.py, \<^verbatim>\<open>process_batch\<close> returns one result
  per file of the batch, and the batch loop of \<^verbatim>\<open>main\<close>, for every positive batch size,
  returns one result per discovered file; in both, the \<open>k\<close>-th result carries the path of
  the \<open>k\<close>-th file.
\<close>

theorem batch_results_in_order:
  assumes "0 < bs"
  shows "(\<exists>rs w'. process_batch env files w = (Inr rs, w') \<and> length rs = length files \<and>
            map (\<lambda>r. getitem r ''FilePath'') rs = map (\<lambda>p. Inr (PStr p)) files) \<and>
         (\<exists>rs w'. process_in_batches env bs files w = (Inr rs, w') \<and>
            length rs = length files \<and>
            map (\<lambda>r. getitem r ''FilePath'') rs = map (\<lambda>p. Inr (PStr p)) files)"
proof
  from process_batch_results [of env files w] obtain rs w'
    where "process_batch env files w = (Inr rs, w')" "list_all2 item_result files rs"
    by blast
  then show "\<exists>rs w'. process_batch env files w = (Inr rs, w') \<and> length rs = length files \<and>
      map (\<lambda>r. getitem r ''FilePath'') rs = map (\<lambda>p. Inr (PStr p)) files"
    using item_result_file_path [of files rs] by (auto dest: list_all2_lengthD)
next
  from process_in_batches_results [OF assms, of env files w] obtain rs w'
    where "process_in_batches env bs files w = (Inr rs, w')" "list_all2 item_result files rs"
    by blast
  then show "\<exists>rs w'. process_in_batches env bs files w = (Inr rs, w') \<and>
      length rs = length files \<and>
      map (\<lambda>r. getitem r ''FilePath'') rs = map (\<lambda>p. Inr (PStr p)) files"
    using item_result_file_path [of files rs] by (auto dest: list_all2_lengthD)
qed

theorem batch_results_in_order_witness:
  "0 < batch_size \<and>
   (\<exists>rs w'. process_batch demo_env [''AudioFiles/calls/a.wav'', ''AudioFiles/calls/b.MP3''] w0 =
        (Inr rs, w') \<and>
      length rs = length [''AudioFiles/calls/a.wav'', ''AudioFiles/calls/b.MP3''] \<and>
      map (\<lambda>r. getitem r ''FilePath'') rs =
        map (\<lambda>p. Inr (PStr p)) [''AudioFiles/calls/a.wav'', ''AudioFiles/calls/b.MP3'']) \<and>
   (\<exists>rs w'. process_in_batches demo_env batch_size
        [''AudioFiles/calls/a.wav'', ''AudioFiles/calls/b.MP3''] w0 = (Inr rs, w') \<and>
      length rs = length [''AudioFiles/calls/a.wav'', ''AudioFiles/calls/b.MP3''] \<and>
      map (\<lambda>r. getitem r ''FilePath'') rs =
        map (\<lambda>p. Inr (PStr p)) [''AudioFiles/calls/a.wav'', ''AudioFiles/calls/b.MP3''])"
proof -
  have bs: "0 < batch_size" by (simp add: batch_size_def)
  from batch_results_in_order [OF bs, of demo_env
      "[''AudioFiles/calls/a.wav'', ''AudioFiles/calls/b.MP3'']" w0] bs
  show ?thesis by blast
qed

text \<open>
  C2 as stated fails for \<^verbatim>\<open>process_audio_files\<close> of recentAsPerHuzaifa-upgraded.py: a file
  whose answer is not valid JSON goes to \<^verbatim>\<open>failed_files\<close>, in the first pass and again in
  the retry pass, and \<^verbatim>\<open>output_json\<close> holds no result for it.
\<close>

theorem audio_files_results_missing:
  "fst (process_audio_files garbled_env [''test/a/x.wav''] 10 no_lists w0) = Inr () \<and>
   fst (snd (process_audio_files garbled_env [''test/a/x.wav''] 10 no_lists w0)) =
     \<lparr>output_json = [], failed_files = [''test/a/x.wav'']\<rparr> \<and>
   length (output_json (fst (snd
     (process_audio_files garbled_env [''test/a/x.wav''] 10 no_lists w0)))) \<noteq>
   length [''test/a/x.wav'']"
  by (simp add: rec_defs eval_defs audio_batches_from.simps)

lemmas main_defs =
  main_def audio_subdirs_def process_subdir_def list_audio_files_def process_in_batches_def
  process_batch_def batch_size_def is_audio_def path_join_def write_json_def reports_def
  clash_env_def

text \<open>
  C3. Every report \<^verbatim>\<open>main\<close> writes belongs to one sub-directory in which audio files were
  found, in the order of the sub-directories, and its counters satisfy
  \<^verbatim>\<open>SuccessfulFiles + FailedFiles = TotalFiles\<close>, where \<^verbatim>\<open>TotalFiles\<close> is the number of audio
  files found in that sub-directory.
\<close>

theorem folder_report_counts:
  "\<exists>new. reports (snd (main env directory w)) = reports w @ new \<and>
     list_all2
       (\<lambda>subdir (path, doc). report_counts (length (list_audio_files env subdir)) doc)
       (filter (\<lambda>s. list_audio_files env s \<noteq> []) (audio_subdirs env directory)) new"
proof -
  from main_reports [of env directory w] obtain new w'
    where m: "main env directory w = (Inr (), w')" "reports w' = reports w @ new"
      "list_all2 (\<lambda>subdir (path, doc). folder_report env subdir path doc)
        (filter (\<lambda>s. list_audio_files env s \<noteq> []) (audio_subdirs env directory)) new"
    by blast
  have "list_all2
      (\<lambda>subdir (path, doc). report_counts (length (list_audio_files env subdir)) doc)
      (filter (\<lambda>s. list_audio_files env s \<noteq> []) (audio_subdirs env directory)) new"
    by (rule list_all2_mono [OF m(3)]) (auto simp: folder_report_def)
  with m(1) m(2) show ?thesis by auto
qed



text \<open>
  C9. Each sub-directory's report goes to \<^verbatim>\<open>output/<basename>.json\<close>. Two sub-directories
  of the same name under different parents share that path: the report of the second
  replaces the report of the first within one run.
\<close>

theorem same_name_folders_share_report:
  "audio_subdirs clash_env ''AudioFiles'' = [''AudioFiles/x/calls'', ''AudioFiles/y/calls''] \<and>
   map fst (reports (snd (main clash_env ''AudioFiles'' w0))) =
     [''output/calls.json'', ''output/calls.json'']"
  by (simp add: main_defs eval_defs retry.simps batches_from.simps)










lemmas script_defs =
  run_script_def fetch_audio_files_def save_output_def organize_output_by_folders_def
  one_upload_env_def

text \<open>
  The failure entries of recentAsPerHuzaifa-upgraded.py never reach a report. Here the
  only file of folder \<^verbatim>\<open>a\<close> fails in the first pass and raises in both retry passes;
  \<^verbatim>\<open>retry_failed_files\<close> appends an entry with \<^verbatim>\<open>Success\<close> false for each, without a
  \<^verbatim>\<open>FilePath\<close>, and \<^verbatim>\<open>organize_output_by_folders\<close> skips them: nothing is written.
\<close>

lemma failure_entries_not_saved:
  "fst (run_script one_upload_env ''test'' no_lists w0) = Inr () \<and>
   output_json (fst (snd (run_script one_upload_env ''test'' no_lists w0))) =
     [PDict [(''FileName'', PStr ''test/a/x.wav''), (''Success'', PBool False),
        (''Message'', PStr (''Error processing file on retry: '' @
           ''cannot access local variable audio_file where it is not associated with a value''))],
      PDict [(''FileName'', PStr ''test/a/x.wav''), (''Success'', PBool False),
        (''Message'', PStr (''Error processing file on retry: '' @
           ''cannot access local variable audio_file where it is not associated with a value''))]] \<and>
   reports (snd (snd (run_script one_upload_env ''test'' no_lists w0))) = []"
  by (simp add: script_defs rec_defs eval_defs main_defs audio_batches_from.simps)

end
